theory Spec2Isabelle
  imports Main "HOL-Library.Word"
begin

unbundle bit_operations_syntax

section \<open>The WebSocket client of \<open>mcu/websocket.py\<close>\<close>

text \<open>
  The module is MicroPython: integers are unbounded (\<open>nat\<close> here, none is ever negative),
  \<open>bytes\<close> are lists of 8-bit words, and \<open>struct.pack\<close> keeps the low bits of a value
  that does not fit its field. A \<open>str\<close> is represented by its UTF-8 encoding, so
  \<open>str.encode('utf-8')\<close> is the identity on the representation.
\<close>

type_synonym byte = "8 word"
type_synonym bytes = "byte list"

subsection \<open>Constants\<close>

definition OP_CONT :: nat where [simp]: "OP_CONT = 0x0"
definition OP_TEXT :: nat where [simp]: "OP_TEXT = 0x1"
definition OP_BYTES :: nat where [simp]: "OP_BYTES = 0x2"
definition OP_CLOSE :: nat where [simp]: "OP_CLOSE = 0x8"
definition OP_PING :: nat where [simp]: "OP_PING = 0x9"
definition OP_PONG :: nat where [simp]: "OP_PONG = 0xA"

definition CLOSE_OK :: nat where [simp]: "CLOSE_OK = 1000"
definition CLOSE_TOO_BIG :: nat where [simp]: "CLOSE_TOO_BIG = 1009"

subsection \<open>Exceptions\<close>

datatype exn_arg = NoArg | OpcodeArg "nat option" | MsgArg string

datatype error =
    EOFError
  | MemoryError
  | TypeError
  | UnicodeError
  | ValueError exn_arg
  | Exception exn_arg

subsection \<open>The byte stream and the session\<close>

text \<open>
  The \<open>uasyncio\<close> stream is the environment of the module. It is modelled in memory:
  \<open>rx\<close> holds the bytes the peer has sent and the client has not read yet, \<open>tx\<close> the bytes
  written so far, \<open>flushed\<close> the length of \<open>tx\<close> at the last \<open>drain()\<close>, \<open>released\<close>
  whether \<open>wait_closed()\<close> has run, and \<open>mem\<close> the largest buffer a read can allocate.
\<close>

record stream =
  rx :: bytes
  tx :: bytes
  flushed :: nat
  released :: bool
  mem :: nat

text \<open>
  \<open>WebsocketClient\<close>: the fields \<open>_stream\<close> and \<open>open\<close>. \<open>rcalls\<close> counts the calls of
  \<open>random.getrandbits\<close> made so far; the random source itself is a parameter \<open>rnd\<close> of
  every operation that draws from it, \<open>rnd i\<close> being what the i-th call returns.
\<close>

record client =
  strm :: stream
  is_open :: bool
  rcalls :: nat

text \<open>
  \<open>WebsocketClient(stream)\<close>: \<open>__init__\<close> stores the stream and sets \<open>open\<close>; \<open>n\<close> is the number
  of random draws made before. \<open>peer_sent bs m\<close> is a connection just opened, on which the
  peer has sent \<open>bs\<close> and reads can allocate up to \<open>m\<close> bytes.
\<close>

definition peer_sent :: "bytes \<Rightarrow> nat \<Rightarrow> stream" where
  "peer_sent bs m = \<lparr>rx = bs, tx = [], flushed = 0, released = False, mem = m\<rparr>"

definition WebsocketClient :: "stream \<Rightarrow> nat \<Rightarrow> client" where
  "WebsocketClient stream n = \<lparr>strm = stream, is_open = True, rcalls = n\<rparr>"

subsection \<open>Sequencing with exceptions\<close>

type_synonym ('a, 's) io = "'s \<Rightarrow> (error + 'a) \<times> 's"

definition ret :: "'a \<Rightarrow> ('a, 's) io" where
  "ret v s = (Inr v, s)"

definition raise :: "error \<Rightarrow> ('a, 's) io" where
  "raise e s = (Inl e, s)"

definition then_do :: "('a, 's) io \<Rightarrow> ('a \<Rightarrow> ('b, 's) io) \<Rightarrow> ('b, 's) io" where
  "then_do m f s = (case m s of (Inl e, s') \<Rightarrow> (Inl e, s') | (Inr v, s') \<Rightarrow> f v s')"

subsection \<open>Stream operations\<close>

definition s_write :: "bytes \<Rightarrow> (unit, stream) io" where
  "s_write bs s = (Inr (), s\<lparr>tx := tx s @ bs\<rparr>)"

definition s_drain :: "(unit, stream) io" where
  "s_drain s = (Inr (), s\<lparr>flushed := length (tx s)\<rparr>)"

definition s_wait_closed :: "(unit, stream) io" where
  "s_wait_closed s = (Inr (), s\<lparr>released := True\<rparr>)"

text \<open>
  \<open>readexactly(n)\<close> allocates its buffer first (\<open>MemoryError\<close> when it cannot) and raises
  \<open>EOFError\<close> when the stream ends before \<open>n\<close> bytes have arrived.
\<close>

definition s_readexactly :: "nat \<Rightarrow> (bytes, stream) io" where
  "s_readexactly n s =
     (if mem s < n then (Inl MemoryError, s)
      else if length (rx s) < n then (Inl EOFError, s\<lparr>rx := []\<rparr>)
      else (Inr (take n (rx s)), s\<lparr>rx := drop n (rx s)\<rparr>))"

text \<open>\<open>readline()\<close> returns up to and including the first \<open>\n\<close>, or what is left at end of file.\<close>

definition s_readline :: "(bytes, stream) io" where
  "s_readline s =
     (let l = takeWhile (\<lambda>b. b \<noteq> 10) (rx s); rest = dropWhile (\<lambda>b. b \<noteq> 10) (rx s)
      in (Inr (l @ take 1 rest), s\<lparr>rx := drop 1 rest\<rparr>))"

definition on_stream :: "('a, stream) io \<Rightarrow> ('a, client) io" where
  "on_stream m c = (case m (strm c) of (r, s') \<Rightarrow> (r, c\<lparr>strm := s'\<rparr>))"

text \<open>\<open>random.getrandbits(k)\<close>\<close>

definition getrandbits :: "(nat \<Rightarrow> nat) \<Rightarrow> nat \<Rightarrow> (nat, client) io" where
  "getrandbits rnd k c = (Inr (rnd (rcalls c) mod 2 ^ k), c\<lparr>rcalls := Suc (rcalls c)\<rparr>)"

subsection \<open>\<open>struct.pack\<close> and \<open>struct.unpack\<close>, network byte order\<close>

text \<open>\<open>pack_be k n\<close> is \<open>struct.pack\<close> of one unsigned \<open>k\<close>-byte field: \<open>'!B'\<close>, \<open>'!H'\<close>, \<open>'!I'\<close>, \<open>'!Q'\<close>.\<close>

fun pack_be :: "nat \<Rightarrow> nat \<Rightarrow> bytes" where
  "pack_be 0 n = []"
| "pack_be (Suc k) n = pack_be k (n div 256) @ [of_nat n]"

lemma pack_be_numeral [simp]:
  "pack_be (numeral k) n = pack_be (pred_numeral k) (n div 256) @ [of_nat n]"
  by (simp only: numeral_eq_Suc [of k] pack_be.simps)

definition unpack_be :: "bytes \<Rightarrow> nat" where
  "unpack_be bs = foldl (\<lambda>a b. 256 * a + unat b) 0 bs"

subsection \<open>Masking\<close>

text \<open>
  \<open>bytes(b ^ mask_bits[i % 4] for i, b in enumerate(data))\<close>. At both call sites
  \<open>mask_bits\<close> has four bytes, so the index is always in range.
\<close>

definition mask_data :: "bytes \<Rightarrow> bytes \<Rightarrow> bytes" where
  "mask_data mask_bits data = map (\<lambda>(i, b). b XOR mask_bits ! (i mod 4)) (enumerate 0 data)"

subsection \<open>\<open>WebsocketClient._write_frame\<close>\<close>

definition write_frame :: "(nat \<Rightarrow> nat) \<Rightarrow> nat \<Rightarrow> bytes \<Rightarrow> (unit, client) io" where
  "write_frame rnd opcode data =
     (let fin = True; mask = True; len = length data;
          byte1 = (if fin then 0x80 else 0) OR opcode;
          byte2 = (if mask then 0x80 else 0)
      in then_do
           (if len < 126 then
              on_stream (s_write (pack_be 1 byte1 @ pack_be 1 (byte2 OR len)))
            else if len < 2 ^ 16 then
              on_stream (s_write (pack_be 1 byte1 @ pack_be 1 (byte2 OR 126) @ pack_be 2 len))
            else if len < 2 ^ 64 then
              on_stream (s_write (pack_be 1 byte1 @ pack_be 1 (byte2 OR 127) @ pack_be 8 len))
            else raise (ValueError NoArg))
           (\<lambda>_. then_do
              (if mask then
                 then_do (getrandbits rnd 32) (\<lambda>r.
                   let mask_bits = pack_be 4 r
                   in then_do (on_stream (s_write mask_bits)) (\<lambda>_. ret (mask_data mask_bits data)))
               else ret data)
              (\<lambda>data'. on_stream (s_write data'))))"

subsection \<open>\<open>WebsocketClient.close\<close> and \<open>wait_closed\<close>\<close>

definition close :: "(nat \<Rightarrow> nat) \<Rightarrow> nat \<Rightarrow> bytes \<Rightarrow> (unit, client) io" where
  "close rnd code reason c =
     (if \<not> is_open c then (Inr (), c)
      else then_do (write_frame rnd OP_CLOSE (pack_be 2 code @ reason))
             (\<lambda>_ c'. (Inr (), c'\<lparr>is_open := False\<rparr>)) c)"

definition wait_closed :: "(unit, client) io" where
  "wait_closed = then_do (on_stream s_drain) (\<lambda>_. on_stream s_wait_closed)"

subsection \<open>\<open>WebsocketClient._read_frame\<close>\<close>

text \<open>
  The result is \<open>(fin, opcode, data)\<close>; \<open>data\<close> is \<open>None\<close> on the path that has caught a
  \<open>MemoryError\<close>. \<open>mask_bits\<close> is bound only when the mask bit is set, and only read then.
\<close>

definition read_frame :: "(nat \<Rightarrow> nat) \<Rightarrow> (bool \<times> nat \<times> bytes option, client) io" where
  "read_frame rnd =
     then_do (on_stream (s_readexactly 2)) (\<lambda>hdr.
       let byte1 = unat (hdr ! 0); byte2 = unat (hdr ! 1);
           fin = (byte1 AND 0x80 \<noteq> 0);
           opcode = byte1 AND 0x0f;
           mask = (byte2 AND push_bit 7 1 \<noteq> 0);
           len0 = byte2 AND 0x7f
       in then_do
            (if len0 = 126 then then_do (on_stream (s_readexactly 2)) (\<lambda>b. ret (unpack_be b))
             else if len0 = 127 then then_do (on_stream (s_readexactly 8)) (\<lambda>b. ret (unpack_be b))
             else ret len0)
            (\<lambda>len. then_do
               (if mask then on_stream (s_readexactly 4) else ret [])
               (\<lambda>mask_bits c.
                  case on_stream (s_readexactly len) c of
                    (Inl e, c') \<Rightarrow>
                      if e = MemoryError then
                        then_do (close rnd CLOSE_TOO_BIG [])
                          (\<lambda>_. then_do (on_stream s_drain)
                             (\<lambda>_. ret (True, OP_CLOSE, None))) c'
                      else (Inl e, c')
                  | (Inr data, c') \<Rightarrow>
                      (Inr (fin, opcode, Some (if mask then mask_data mask_bits data else data)), c'))))"

subsection \<open>\<open>WebsocketClient.send\<close>\<close>

text \<open>
  What \<open>send\<close> can be given: a \<open>str\<close> (by its UTF-8 encoding), a \<open>bytes\<close> object, or
  an object of any other type.
\<close>

datatype payload = Str bytes | Bytes bytes | Other

definition send :: "(nat \<Rightarrow> nat) \<Rightarrow> payload \<Rightarrow> (unit, client) io" where
  "send rnd buf c =
     (if \<not> is_open c then (Inr (), c)
      else case buf of
        Str b \<Rightarrow> then_do (write_frame rnd OP_TEXT b) (\<lambda>_. on_stream s_drain) c
      | Bytes b \<Rightarrow> then_do (write_frame rnd OP_BYTES b) (\<lambda>_. on_stream s_drain) c
      | Other \<Rightarrow> (Inl TypeError, c))"

subsection \<open>The frame reader consumes input\<close>

lemma then_do_Inr:
  "then_do m f c = (Inr v, c') \<Longrightarrow> \<exists>u c1. m c = (Inr u, c1) \<and> f u c1 = (Inr v, c')"
  by (auto simp: then_do_def split: prod.splits sum.splits)

lemma then_do_rx:
  assumes "\<And>r c1. m c = (r, c1) \<Longrightarrow> length (rx (strm c1)) \<le> length (rx (strm c))"
    and "\<And>u c1 r c2. f u c1 = (r, c2) \<Longrightarrow> length (rx (strm c2)) \<le> length (rx (strm c1))"
    and "then_do m f c = (r, c')"
  shows "length (rx (strm c')) \<le> length (rx (strm c))"
proof (cases "m c")
  case (Pair r1 c1)
  note m = assms(1) [OF Pair]
  show ?thesis
  proof (cases r1)
    case (Inl e)
    with Pair assms(3) have "c' = c1" by (simp add: then_do_def)
    with m show ?thesis by simp
  next
    case (Inr u)
    with Pair assms(3) have "f u c1 = (r, c')" by (simp add: then_do_def)
    from assms(2) [OF this] m show ?thesis by simp
  qed
qed

lemma write_rx: "on_stream (s_write bs) c = (r, c') \<Longrightarrow> rx (strm c') = rx (strm c)"
  by (auto simp: on_stream_def s_write_def)

lemma drain_rx: "on_stream s_drain c = (r, c') \<Longrightarrow> rx (strm c') = rx (strm c)"
  by (auto simp: on_stream_def s_drain_def)

lemma readexactly_rx:
  "on_stream (s_readexactly n) c = (r, c') \<Longrightarrow> length (rx (strm c')) \<le> length (rx (strm c))"
  by (auto simp: on_stream_def s_readexactly_def split: if_splits)

lemma readexactly_Inr:
  "on_stream (s_readexactly n) c = (Inr bs, c') \<Longrightarrow>
     length (rx (strm c')) + n = length (rx (strm c)) \<and> bs = take n (rx (strm c)) \<and>
     c' = c\<lparr>strm := (strm c)\<lparr>rx := drop n (rx (strm c))\<rparr>\<rparr>"
  by (auto simp: on_stream_def s_readexactly_def split: if_splits)

lemma write_frame_rx:
  "write_frame rnd opcode data c = (r, c') \<Longrightarrow> rx (strm c') = rx (strm c)"
  by (auto simp: write_frame_def then_do_def on_stream_def s_write_def getrandbits_def
      ret_def raise_def Let_def split: if_splits)

lemma close_rx: "close rnd code reason c = (r, c') \<Longrightarrow> rx (strm c') = rx (strm c)"
  by (auto simp: close_def then_do_def dest: write_frame_rx split: if_splits prod.splits sum.splits)

lemma payload_rx:
  "(case on_stream (s_readexactly len) c of
      (Inl e, c') \<Rightarrow>
        if e = MemoryError then
          then_do (close rnd CLOSE_TOO_BIG [])
            (\<lambda>_. then_do (on_stream s_drain) (\<lambda>_. ret (True, OP_CLOSE, None))) c'
        else (Inl e, c')
    | (Inr data, c') \<Rightarrow> (Inr (g data), c')) = (r, c2)
   \<Longrightarrow> length (rx (strm c2)) \<le> length (rx (strm c))"
  by (auto simp: then_do_def ret_def split: prod.splits sum.splits if_splits
      dest!: close_rx drain_rx readexactly_rx)

lemma ret_rx: "ret v c = (r, c') \<Longrightarrow> c' = c"
  by (simp add: ret_def)

lemma read_frame_consumes:
  assumes "read_frame rnd c = (Inr v, c')"
  shows "length (rx (strm c')) < length (rx (strm c))"
proof -
  from assms obtain hdr c1 where h: "on_stream (s_readexactly 2) c = (Inr hdr, c1)"
    and rest: "(let byte1 = unat (hdr ! 0); byte2 = unat (hdr ! 1);
           fin = (byte1 AND 0x80 \<noteq> 0);
           opcode = byte1 AND 0x0f;
           mask = (byte2 AND push_bit 7 1 \<noteq> 0);
           len0 = byte2 AND 0x7f
       in then_do
            (if len0 = 126 then then_do (on_stream (s_readexactly 2)) (\<lambda>b. ret (unpack_be b))
             else if len0 = 127 then then_do (on_stream (s_readexactly 8)) (\<lambda>b. ret (unpack_be b))
             else ret len0)
            (\<lambda>len. then_do
               (if mask then on_stream (s_readexactly 4) else ret [])
               (\<lambda>mask_bits c.
                  case on_stream (s_readexactly len) c of
                    (Inl e, c') \<Rightarrow>
                      if e = MemoryError then
                        then_do (close rnd CLOSE_TOO_BIG [])
                          (\<lambda>_. then_do (on_stream s_drain)
                             (\<lambda>_. ret (True, OP_CLOSE, None))) c'
                      else (Inl e, c')
                  | (Inr data, c') \<Rightarrow>
                      (Inr (fin, opcode, Some (if mask then mask_data mask_bits data else data)), c')))) c1
        = (Inr v, c')"
    unfolding read_frame_def by (blast dest: then_do_Inr)
  from readexactly_Inr [OF h] have 1: "length (rx (strm c1)) + 2 = length (rx (strm c))"
    by (rule conjunct1)
  have 2: "length (rx (strm c')) \<le> length (rx (strm c1))"
    using rest unfolding Let_def
    apply (rule then_do_rx [rotated 2])
     apply (auto split: if_splits dest!: ret_rx elim!: then_do_rx [rotated 2] dest: readexactly_rx)[1]
    apply (erule then_do_rx [rotated 2])
     apply (auto split: if_splits dest!: ret_rx dest: readexactly_rx)[1]
    apply (erule payload_rx)
    done
  from 1 2 show ?thesis by simp
qed

subsection \<open>\<open>WebsocketClient.recv\<close>\<close>

text \<open>
  What \<open>recv\<close> returns: a \<open>str\<close> (again by its UTF-8 encoding) or the \<open>bytearray\<close>;
  Python's \<open>None\<close> is \<open>None\<close>. \<open>buf.decode('utf-8')\<close> is a primitive of the platform: the
  parameter \<open>utf8\<close> says which byte strings it decodes, and it raises \<open>UnicodeError\<close> on the
  others.

  \<open>recv_loop\<close> is the \<open>while self.open\<close> loop, with the locals \<open>popcode\<close> and \<open>buf\<close> as
  arguments. Every branch of the opcode dispatch but the one for data frames leaves the
  iteration (\<open>return\<close>, \<open>continue\<close> or \<open>raise\<close>), so the final \<open>if fin\<close> is written inside
  the data branch. \<open>buf += data\<close> and \<open>len(data)\<close> raise \<open>TypeError\<close> on \<open>None\<close>.
\<close>

datatype message = Text bytes | Binary bytes

function recv_loop ::
  "(nat \<Rightarrow> nat) \<Rightarrow> (bytes \<Rightarrow> bool) \<Rightarrow> nat option \<Rightarrow> bytes \<Rightarrow> (message option, client) io" where
  "recv_loop rnd utf8 popcode buf c =
     (if \<not> is_open c then (Inr None, c)
      else case read_frame rnd c of (r, c') \<Rightarrow>
        (case r of
           Inl e \<Rightarrow> if e = EOFError then (Inr None, c'\<lparr>is_open := False\<rparr>) else (Inl e, c')
         | Inr (fin, opcode0, data) \<Rightarrow>
             let opcode = (if opcode0 = OP_CONT then popcode else Some opcode0);
                 buf1 = (if opcode0 = OP_CONT then buf else []);
                 popcode1 = (if opcode0 = OP_CONT then popcode else Some opcode0)
             in if opcode = Some OP_TEXT \<or> opcode = Some OP_BYTES then
                  (case data of
                     None \<Rightarrow> (Inl TypeError, c')
                   | Some d \<Rightarrow>
                       let buf2 = buf1 @ d
                       in if fin then
                            (if opcode = Some OP_TEXT then
                               (if utf8 buf2 then (Inr (Some (Text buf2)), c')
                                else (Inl UnicodeError, c'))
                             else if opcode = Some OP_BYTES then (Inr (Some (Binary buf2)), c')
                             else recv_loop rnd utf8 popcode1 buf2 c')
                          else recv_loop rnd utf8 popcode1 buf2 c')
                else if opcode = Some OP_CLOSE then
                  then_do (close rnd CLOSE_OK []) (\<lambda>_. then_do wait_closed (\<lambda>_. ret None)) c'
                else if opcode = Some OP_PONG then recv_loop rnd utf8 popcode1 buf1 c'
                else if opcode = Some OP_PING then
                  (case data of
                     None \<Rightarrow> (Inl TypeError, c')
                   | Some d \<Rightarrow>
                       (case then_do (write_frame rnd OP_PONG d) (\<lambda>_. on_stream s_drain) c' of
                          (Inl e, c2) \<Rightarrow> (Inl e, c2)
                        | (Inr _, c2) \<Rightarrow> recv_loop rnd utf8 popcode1 buf1 c2))
                else (Inl (ValueError (OpcodeArg opcode)), c')))"
  by pat_completeness auto
termination
  apply (relation "measure (\<lambda>(rnd, utf8, popcode, buf, c). length (rx (strm c)))")
  apply (auto simp: then_do_def split: prod.splits sum.splits
      dest!: read_frame_consumes [OF sym] write_frame_rx drain_rx [OF sym])
  done

definition recv :: "(nat \<Rightarrow> nat) \<Rightarrow> (bytes \<Rightarrow> bool) \<Rightarrow> (message option, client) io" where
  "recv rnd utf8 = recv_loop rnd utf8 None []"


subsection \<open>\<open>connect\<close>\<close>

text \<open>
  A \<open>str\<close> is modelled by its bytes (\<open>char\<close> is a byte), so \<open>ascii\<close> is the view of a \<open>str\<close>
  as \<open>bytes\<close> that the \<open>%s\<close> of a bytes format takes. \<open>startswith\<close> is \<open>bytes.startswith\<close>,
  \<open>py_int\<close> is \<open>int\<close> on a string of decimal digits (group 3 of the pattern is \<open>[0-9]+\<close>), and
  \<open>dec\<close> is the \<open>%d\<close> of a natural number.
\<close>

definition ascii :: "string \<Rightarrow> bytes" where
  "ascii s = map of_char s"

definition startswith :: "bytes \<Rightarrow> bytes \<Rightarrow> bool" where
  "startswith s p = (take (length p) s = p)"

definition py_int :: "string \<Rightarrow> nat" where
  "py_int ds = foldl (\<lambda>a ch. 10 * a + (of_char ch - 48)) 0 ds"

fun dec :: "nat \<Rightarrow> string" where
  "dec n = (if n < 10 then [''0123456789'' ! n]
            else dec (n div 10) @ [''0123456789'' ! (n mod 10)])"

declare dec.simps [simp del]

text \<open>The local function \<open>send_header\<close>, its format already applied to its arguments.\<close>

definition send_header :: "bytes \<Rightarrow> (unit, stream) io" where
  "send_header line = s_write (line @ [13, 10])"

text \<open>
  The loop that skips the response headers reads lines until an empty read (end of file)
  or the line \<open>\r\n\<close>; every line it reads, but an empty one, takes bytes off the stream.
\<close>

lemma readline_consumes:
  "s_readline s = (Inr h, s') \<Longrightarrow> h \<noteq> [] \<Longrightarrow> length (rx s') < length (rx s)"
proof -
  assume a: "s_readline s = (Inr h, s')" and h: "h \<noteq> []"
  let ?t = "takeWhile (\<lambda>b. b \<noteq> 10) (rx s)" and ?d = "dropWhile (\<lambda>b. b \<noteq> 10) (rx s)"
  from a have 1: "h = ?t @ take 1 ?d" and 2: "rx s' = drop 1 ?d"
    by (auto simp: s_readline_def Let_def)
  have 3: "length (rx s) = length ?t + length ?d"
    by (metis length_append takeWhile_dropWhile_id)
  from h 1 have "?t \<noteq> [] \<or> ?d \<noteq> []" by auto
  then show ?thesis using 2 3 by (cases ?d) auto
qed

function skip_headers :: "bytes \<Rightarrow> (unit, stream) io" where
  "skip_headers header s =
     (if header \<noteq> [] then
        (case s_readline s of (r, s') \<Rightarrow>
           (case r of
              Inl e \<Rightarrow> (Inl e, s')
            | Inr h \<Rightarrow> if h = [13, 10] then (Inr (), s') else skip_headers h s'))
      else (Inr (), s))"
  by pat_completeness auto
termination
  apply (relation "measure (\<lambda>(header, s). if header = [] then 0 else Suc (length (rx s)))")
   apply (auto dest!: readline_consumes [OF sym])
  done

text \<open>
  \<open>connect(url, token)\<close>. What the platform provides is taken as parameters: \<open>re_match url\<close> is
  \<open>re.match\<close> with the pattern of the source, giving the groups 1 to 4 (protocol, host, port,
  path; an absent optional group is \<open>None\<close>) or \<open>None\<close> when the url does not match;
  \<open>open_connection host port\<close> is \<open>_open_connection\<close>, which gives the stream of a new socket
  or raises; \<open>b2a_base64\<close> is \<open>binascii.b2a_base64\<close>; \<open>rnd\<close> gives the random draws, of which
  the key takes the first 16. The result is the returned session or the exception raised,
  and beside it the stream the call opened (\<open>None\<close> when it opened none), so that what the
  call has done to the connection can be told also when it raises.
\<close>

definition connect ::
  "(string \<Rightarrow> (string \<times> string \<times> string option \<times> string option) option) \<Rightarrow>
   (string \<Rightarrow> nat \<Rightarrow> error + stream) \<Rightarrow> (bytes \<Rightarrow> bytes) \<Rightarrow> (nat \<Rightarrow> nat) \<Rightarrow>
   string \<Rightarrow> string option \<Rightarrow> (error + client) \<times> stream option" where
  "connect re_match open_connection b2a_base64 rnd url token =
     (case re_match url of
        None \<Rightarrow> (Inl (ValueError (MsgArg (''Invalid url '' @ url))), None)
      | Some (protocol, host, port_group, path) \<Rightarrow>
          if protocol \<notin> set [''ws'', ''wss''] then
            (Inl (ValueError (MsgArg (''Invalid scheme '' @ protocol))), None)
          else
            let port = (case port_group of
                          None \<Rightarrow> if protocol = ''ws'' then 80 else 443
                        | Some p \<Rightarrow> py_int p)
            in case open_connection host port of
                 Inl e \<Rightarrow> (Inl e, None)
               | Inr stream \<Rightarrow>
                   let key = butlast (b2a_base64 (map (\<lambda>i. of_nat (rnd i mod 2 ^ 8)) [0..<16]));
                       result =
                         then_do (send_header (ascii ''GET ''
                             @ ascii (case path of None \<Rightarrow> ''/'' | Some p \<Rightarrow> if p = [] then ''/'' else p)
                             @ ascii '' HTTP/1.1'')) (\<lambda>_.
                         then_do (send_header (ascii ''Host: '' @ ascii host @ ascii '':''
                             @ ascii (dec port))) (\<lambda>_.
                         then_do (send_header (ascii ''Connection: Upgrade'')) (\<lambda>_.
                         then_do (send_header (ascii ''Upgrade: websocket'')) (\<lambda>_.
                         then_do (send_header (ascii ''Sec-WebSocket-Key: '' @ key)) (\<lambda>_.
                         then_do (send_header (ascii ''Sec-WebSocket-Version: 13'')) (\<lambda>_.
                         then_do (send_header (ascii ''Origin: '' @ ascii url)) (\<lambda>_.
                         then_do (case token of
                                    None \<Rightarrow> ret ()
                                  | Some t \<Rightarrow>
                                      if t \<noteq> [] then
                                        send_header (ascii ''wake-on-mcu-token: '' @ ascii t)
                                      else ret ()) (\<lambda>_.
                         then_do (send_header []) (\<lambda>_.
                         then_do s_drain (\<lambda>_.
                         then_do s_readline (\<lambda>line.
                           let header = take (length line - 2) line
                           in if \<not> startswith header (ascii ''HTTP/1.1 101 '') then
                                raise (Exception (MsgArg ''Invalid protocol header''))
                              else
                                then_do (skip_headers header) (\<lambda>_ s.
                                  (Inr (WebsocketClient s 16), s)))))))))))))
                         stream
                   in (fst result, Some (snd result)))"

section \<open>Properties\<close>

lemma length_mask_data [simp]: "length (mask_data k d) = length d"
  by (simp add: mask_data_def)

lemma nth_mask_data: "i < length d \<Longrightarrow> mask_data k d ! i = d ! i XOR k ! (i mod 4)"
  by (simp add: mask_data_def nth_enumerate_eq)

lemma mask_data_twice: "mask_data K (mask_data K d) = d"
  by (rule nth_equalityI) (simp_all add: nth_mask_data xor.assoc)

subsection \<open>Bits of the frame header\<close>

lemma low_bits: "L < 2 ^ j \<Longrightarrow> j \<le> k \<Longrightarrow> ((2::nat) ^ k OR L) AND mask j = L"
proof -
  assume "L < 2 ^ j" and jk: "j \<le> k"
  then have L: "take_bit j L = L" by (simp add: take_bit_nat_eq_self_iff)
  have "((2::nat) ^ k OR take_bit j L) AND mask j = take_bit j L"
    using jk by (intro bit_eqI) (auto simp add: bit_simps)
  then show ?thesis by (simp only: L)
qed

lemma high_bit: "((2::nat) ^ k OR L) AND 2 ^ k \<noteq> 0"
proof
  assume "((2::nat) ^ k OR L) AND 2 ^ k = 0"
  then have "\<not> bit (((2::nat) ^ k OR L) AND 2 ^ k) k" by simp
  then show False by (simp add: bit_simps)
qed

lemma or_bound: "L < 2 ^ k \<Longrightarrow> (2::nat) ^ k OR L < 2 ^ Suc k"
proof -
  assume "L < 2 ^ k"
  then have L: "take_bit k L = L" by (simp add: take_bit_nat_eq_self_iff)
  have "take_bit (Suc k) ((2::nat) ^ k OR take_bit k L) = 2 ^ k OR take_bit k L"
    by (intro bit_eqI) (auto simp add: bit_simps)
  then have "take_bit (Suc k) ((2::nat) ^ k OR L) = 2 ^ k OR L" by (simp only: L)
  then show ?thesis by (simp only: take_bit_nat_eq_self_iff)
qed

lemma unat_hdr: "L < 128 \<Longrightarrow> unat (of_nat (128 OR L) :: byte) = 128 OR L"
  using or_bound [of L 7] by (simp add: unat_of_nat)

lemma hdr_fin [simp]: "L < 128 \<Longrightarrow> 0 < unat (of_nat (128 OR L) :: byte) AND 128"
  using high_bit [of 7 L] by (simp add: unat_hdr)

lemma hdr_opcode [simp]: "L < 16 \<Longrightarrow> unat (of_nat (128 OR L) :: byte) AND 15 = L"
  using low_bits [of L 4 7] by (simp add: unat_hdr mask_eq_exp_minus_1)

lemma hdr_len [simp]: "L < 128 \<Longrightarrow> unat (of_nat (128 OR L) :: byte) AND 127 = L"
  using low_bits [of L 7 7] by (simp add: unat_hdr mask_eq_exp_minus_1)

lemma unpack_be_snoc: "unpack_be (bs @ [b]) = 256 * unpack_be bs + unat b"
  by (simp add: unpack_be_def)

lemma unpack_pack: "n < 256 ^ k \<Longrightarrow> unpack_be (pack_be k n) = n"
proof (induction k arbitrary: n)
  case 0 then show ?case by (simp add: unpack_be_def)
next
  case (Suc k)
  then have "n div 256 < 256 ^ k" by (simp add: less_mult_imp_div_less mult.commute)
  with Suc.IH have "unpack_be (pack_be k (n div 256)) = n div 256" by blast
  then show ?case by (simp add: unpack_be_snoc unat_of_nat)
qed

lemma length_pack_be [simp]: "length (pack_be k n) = k"
  by (induction k arbitrary: n) auto

lemmas io_defs = then_do_def ret_def raise_def on_stream_def s_readexactly_def s_write_def
  s_drain_def s_wait_closed_def getrandbits_def

text \<open>
  The header that \<open>_write_frame\<close> writes for a payload of \<open>L\<close> bytes (\<open>write_frame_eq\<close> below):
  \<open>fin\<close> and \<open>mask\<close> are always set, so byte 1 is \<open>0x80 | opcode\<close> and byte 2 is \<open>0x80\<close> or-ed
  with the length field.
\<close>

definition frame_header :: "nat \<Rightarrow> nat \<Rightarrow> bytes" where
  "frame_header opcode L =
     (if L < 126 then [of_nat (128 OR opcode), of_nat (128 OR L)]
      else if L < 2 ^ 16 then [of_nat (128 OR opcode), 254] @ pack_be 2 L
      else [of_nat (128 OR opcode), 255] @ pack_be 8 L)"

lemma write_frame_eq:
  "length data < 2 ^ 64 \<Longrightarrow>
   write_frame rnd opcode data c =
     (Inr (), c\<lparr>strm := (strm c)\<lparr>tx := tx (strm c) @ frame_header opcode (length data)
          @ pack_be 4 (rnd (rcalls c) mod 2 ^ 32)
          @ mask_data (pack_be 4 (rnd (rcalls c) mod 2 ^ 32)) data\<rparr>,
        rcalls := Suc (rcalls c)\<rparr>)"
  by (simp add: write_frame_def io_defs frame_header_def Let_def)

lemma write_frame_big:
  "\<not> length data < 2 ^ 64 \<Longrightarrow> write_frame rnd opcode data c = (Inl (ValueError NoArg), c)"
  by (simp add: write_frame_def io_defs Let_def)

lemma read_frame_small:
  assumes "length masked < 126" "opcode < 16" "length key = 4"
    "length masked \<le> mem (strm cr)" "4 \<le> mem (strm cr)"
    "rx (strm cr) = [of_nat (128 OR opcode), of_nat (128 OR length masked)] @ key @ masked @ rest"
  shows "read_frame rnd cr =
     (Inr (True, opcode, Some (mask_data key masked)), cr\<lparr>strm := (strm cr)\<lparr>rx := rest\<rparr>\<rparr>)"
  using assms by (simp add: read_frame_def io_defs Let_def)

lemma read_frame_medium:
  assumes "126 \<le> length masked" "length masked < 2 ^ 16" "opcode < 16" "length key = 4"
    "length masked \<le> mem (strm cr)" "4 \<le> mem (strm cr)"
    "rx (strm cr) = [of_nat (128 OR opcode), 254] @ pack_be 2 (length masked) @ key @ masked @ rest"
  shows "read_frame rnd cr =
     (Inr (True, opcode, Some (mask_data key masked)), cr\<lparr>strm := (strm cr)\<lparr>rx := rest\<rparr>\<rparr>)"
  using assms unpack_pack [of "length masked" 2]
  by (simp add: read_frame_def io_defs Let_def del: pack_be_numeral pack_be.simps)

lemma read_frame_large:
  assumes "2 ^ 16 \<le> length masked" "length masked < 2 ^ 64" "opcode < 16" "length key = 4"
    "length masked \<le> mem (strm cr)" "8 \<le> mem (strm cr)"
    "rx (strm cr) = [of_nat (128 OR opcode), 255] @ pack_be 8 (length masked) @ key @ masked @ rest"
  shows "read_frame rnd cr =
     (Inr (True, opcode, Some (mask_data key masked)), cr\<lparr>strm := (strm cr)\<lparr>rx := rest\<rparr>\<rparr>)"
  using assms unpack_pack [of "length masked" 8]
  by (simp add: read_frame_def io_defs Let_def del: pack_be_numeral pack_be.simps)


subsection \<open>Masking is its own inverse\<close>

text \<open>
  C9: for every 4-byte mask key \<open>K\<close> and every payload, of any length, masking with \<open>K\<close> and
  then unmasking with \<open>K\<close> (the same byte-for-byte XOR with \<open>K[i mod 4]\<close>, as done by
  \<open>_write_frame\<close> and \<open>_read_frame\<close>) gives the payload back.
\<close>

theorem mask_data_self_inverse:
  "length K = 4 \<Longrightarrow> mask_data K (mask_data K payload) = payload"
  by (rule mask_data_twice)

theorem mask_data_self_inverse_witness:
  "length [0x37, 0xfa, 0x21, 0x3d :: byte] = 4 \<and>
   mask_data [0x37, 0xfa, 0x21, 0x3d] (mask_data [0x37, 0xfa, 0x21, 0x3d] [1, 2, 3, 4, 5])
     = [1, 2, 3, 4, 5]"
  using mask_data_self_inverse [of "[0x37, 0xfa, 0x21, 0x3d]" "[1, 2, 3, 4, 5]"] by simp

lemma frame_header_2 [simp]:
  "frame_header opcode (Suc (Suc 0)) = [of_nat (128 OR opcode), 130]"
proof -
  have "frame_header opcode 2 = [of_nat (128 OR opcode), 130]"
    by (simp add: frame_header_def)
  then show ?thesis unfolding numeral_2_eq_2 .
qed

lemmas fixture_defs = peer_sent_def WebsocketClient_def

lemmas read_defs = read_frame_def io_defs Let_def unpack_be_def mask_data_def

subsection \<open>Round trip of a frame\<close>

text \<open>
  C1: for every payload of length \<open>L < 2^64\<close> (so also for 0, 1, 125, 126, 65535 and 65536
  bytes), the bytes \<open>wire\<close> that \<open>_write_frame\<close> appends to the stream, read back by
  \<open>_read_frame\<close> from a stream that can allocate the payload, decode to the same opcode
  with \<open>fin\<close> set and, after unmasking, to the original payload, and nothing but \<open>wire\<close> is
  consumed. The 7-bit length field of byte 2 is \<open>L\<close> itself with no extension when
  \<open>L < 126\<close>, 126 followed by \<open>L\<close> as 2 big-endian bytes when \<open>126 \<le> L < 2^16\<close>, and 127
  followed by \<open>L\<close> as 8 big-endian bytes when \<open>2^16 \<le> L < 2^64\<close>.
\<close>

theorem frame_roundtrip:
  assumes L: "length payload < 2 ^ 64" and op: "opcode < 16"
    and mem: "8 \<le> mem (strm cr)" "length payload \<le> mem (strm cr)"
    and wire: "wire = drop (length (tx (strm cw))) (tx (strm (snd (write_frame rnd opcode payload cw))))"
    and rx: "rx (strm cr) = wire @ rest"
  shows "fst (write_frame rnd opcode payload cw) = Inr () \<and>
         read_frame rnd' cr =
           (Inr (True, opcode, Some payload), cr\<lparr>strm := (strm cr)\<lparr>rx := rest\<rparr>\<rparr>) \<and>
         unat (wire ! 1) AND 0x7f =
           (if length payload < 126 then length payload
            else if length payload < 2 ^ 16 then 126 else 127) \<and>
         take (length wire - 4 - length payload - 2) (drop 2 wire) =
           (if length payload < 126 then []
            else if length payload < 2 ^ 16 then pack_be 2 (length payload)
            else pack_be 8 (length payload))"
proof -
  define key where "key = pack_be 4 (rnd (rcalls cw) mod 2 ^ 32)"
  define masked where "masked = mask_data key payload"
  have len: "length masked = length payload" "length key = 4"
    by (simp_all add: masked_def key_def del: pack_be_numeral)
  have w: "write_frame rnd opcode payload cw =
      (Inr (), cw\<lparr>strm := (strm cw)\<lparr>tx := tx (strm cw)
         @ frame_header opcode (length payload) @ key @ masked\<rparr>, rcalls := Suc (rcalls cw)\<rparr>)"
    unfolding key_def masked_def by (rule write_frame_eq [OF L])
  have wire': "wire = frame_header opcode (length masked) @ key @ masked"
    by (simp add: wire w len)
  have rx': "rx (strm cr) = frame_header opcode (length masked) @ key @ masked @ rest"
    by (simp add: rx wire')
  have un: "mask_data key masked = payload"
    by (simp add: masked_def mask_data_twice)
  consider "length masked < 126" | "126 \<le> length masked" "length masked < 2 ^ 16"
    | "2 ^ 16 \<le> length masked" by linarith
  then have "read_frame rnd' cr =
      (Inr (True, opcode, Some (mask_data key masked)), cr\<lparr>strm := (strm cr)\<lparr>rx := rest\<rparr>\<rparr>) \<and>
    unat (wire ! 1) AND 0x7f =
      (if length masked < 126 then length masked else if length masked < 2 ^ 16 then 126 else 127) \<and>
    take (length wire - 4 - length masked - 2) (drop 2 wire) =
      (if length masked < 126 then []
       else if length masked < 2 ^ 16 then pack_be 2 (length masked)
       else pack_be 8 (length masked))"
  proof cases
    case 1
    with rx' have "rx (strm cr) =
        [of_nat (128 OR opcode), of_nat (128 OR length masked)] @ key @ masked @ rest"
      by (simp add: frame_header_def)
    from read_frame_small [OF 1 op len(2) _ _ this] mem len 1 show ?thesis
      by (simp add: wire' frame_header_def)
  next
    case 2
    with rx' have "rx (strm cr) =
        [of_nat (128 OR opcode), 254] @ pack_be 2 (length masked) @ key @ masked @ rest"
      by (simp add: frame_header_def del: pack_be_numeral)
    from read_frame_medium [OF 2 op len(2) _ _ this] mem len 2 show ?thesis
      by (simp add: wire' frame_header_def del: pack_be_numeral)
  next
    case 3
    with rx' have "rx (strm cr) =
        [of_nat (128 OR opcode), 255] @ pack_be 8 (length masked) @ key @ masked @ rest"
      by (simp add: frame_header_def del: pack_be_numeral)
    from read_frame_large [OF 3 _ op len(2) _ _ this] mem len L 3 show ?thesis
      by (simp add: wire' frame_header_def del: pack_be_numeral)
  qed
  with un w len show ?thesis by simp
qed

theorem frame_roundtrip_witness:
  "read_frame (\<lambda>_. 0)
      \<lparr>strm = \<lparr>rx = [0x82, 0x85, 1, 2, 3, 4, 0, 0, 0, 0, 4, 0xff], tx = [], flushed = 0, released = False, mem = 64\<rparr>,
       is_open = True, rcalls = 0\<rparr> =
     (Inr (True, 2, Some [1, 2, 3, 4, 5]),
      \<lparr>strm = \<lparr>rx = [0xff], tx = [], flushed = 0, released = False, mem = 64\<rparr>,
       is_open = True, rcalls = 0\<rparr>)"
proof -
  let ?cw = "\<lparr>strm = \<lparr>rx = [], tx = [0x55], flushed = 0, released = False, mem = 64\<rparr>, is_open = True, rcalls = 7\<rparr>"
  let ?cr = "\<lparr>strm = \<lparr>rx = [0x82, 0x85, 1, 2, 3, 4, 0, 0, 0, 0, 4, 0xff], tx = [], flushed = 0, released = False, mem = 64\<rparr>,
       is_open = True, rcalls = 0\<rparr>"
  have l5: "length [1, 2, 3, 4, 5 :: byte] = 5" by simp
  have wf: "write_frame (\<lambda>_. 0x01020304) 2 [1, 2, 3, 4, 5] ?cw =
     (Inr (), \<lparr>strm = \<lparr>rx = [], tx = [0x55, 0x82, 0x85, 1, 2, 3, 4, 0, 0, 0, 0, 4], flushed = 0, released = False, mem = 64\<rparr>, is_open = True, rcalls = 8\<rparr>)"
    using write_frame_eq [of "[1, 2, 3, 4, 5]" "\<lambda>_. 0x01020304" 2 ?cw] unfolding l5
    by (simp add: frame_header_def mask_data_def)
  from frame_roundtrip [of "[1, 2, 3, 4, 5]" 2 ?cr "[0x82, 0x85, 1, 2, 3, 4, 0, 0, 0, 0, 4]" ?cw "\<lambda>_. 0x01020304" "[0xff]" "\<lambda>_. 0"]
  show ?thesis by (simp add: wf)
qed

subsection \<open>Frames that carry data leave the session as it is\<close>

lemma read_frame_data:
  "read_frame rnd c = (Inr (fin, opc, Some d), c') \<Longrightarrow>
     c' = c\<lparr>strm := (strm c)\<lparr>rx := rx (strm c')\<rparr>\<rparr>"
  by (auto simp: read_frame_def io_defs Let_def split: if_splits prod.splits sum.splits)

lemma read_frame_open:
  "read_frame rnd c = (Inr (fin, opc, Some d), c') \<Longrightarrow> is_open c' = is_open c"
  by (drule read_frame_data) (erule ssubst, simp)

subsection \<open>A continuation frame with no open sequence\<close>

text \<open>
  C10: when the first frame that a \<open>recv\<close> call on an open session decodes is a
  CONTINUATION frame, the opcode it inherits is the initial \<open>popcode = None\<close>; no branch of
  the dispatch matches it, and \<open>recv\<close> raises \<open>ValueError(None)\<close>: it returns no message and
  does not go on to the next frame.
\<close>

theorem recv_continuation_first:
  assumes "is_open c" and "read_frame rnd c = (Inr (fin, OP_CONT, data), c')"
  shows "recv rnd utf8 c = (Inl (ValueError (OpcodeArg None)), c')"
  unfolding recv_def by (subst recv_loop.simps) (use assms in simp)

theorem recv_continuation_first_witness:
  "recv (\<lambda>_. 0) (\<lambda>_. True) (WebsocketClient (peer_sent [0x80, 0x01, 0x61] 64) 0) =
     (Inl (ValueError (OpcodeArg None)), WebsocketClient (peer_sent [] 64) 0)"
proof -
  have o: "is_open (WebsocketClient (peer_sent [0x80, 0x01, 0x61] 64) 0)"
    by (simp add: fixture_defs)
  have f: "read_frame (\<lambda>_. 0) (WebsocketClient (peer_sent [0x80, 0x01, 0x61] 64) 0) =
      (Inr (True, OP_CONT, Some [0x61]), WebsocketClient (peer_sent [] 64) 0)"
    by (simp add: fixture_defs read_defs)
  show ?thesis by (rule recv_continuation_first [OF o f])
qed

subsection \<open>Reassembly of a fragmented message\<close>

text \<open>
  C2, as the code has it: on an open session, when the receive loop decodes a TEXT frame
  with \<open>fin\<close> clear carrying \<open>p1\<close>, then a CONTINUATION frame with \<open>fin\<close> clear carrying \<open>p2\<close>,
  then a CONTINUATION frame with \<open>fin\<close> set carrying \<open>p3\<close>, it returns one TEXT message,
  \<open>p1 @ p2 @ p3\<close>, the payloads in arrival order, if \<open>decode('utf-8')\<close> accepts the
  concatenation, and raises \<open>UnicodeError\<close>, returning no message, if it does not. This
  holds wherever the loop stands (whatever \<open>popcode\<close> and \<open>buf\<close> it has: the TEXT frame
  starts a new sequence), and so for a \<open>recv\<close> call that begins with these frames.
\<close>

theorem recv_fragments:
  assumes op: "is_open c0"
    and f1: "read_frame rnd c0 = (Inr (False, OP_TEXT, Some p1), c1)"
    and f2: "read_frame rnd c1 = (Inr (False, OP_CONT, Some p2), c2)"
    and f3: "read_frame rnd c2 = (Inr (True, OP_CONT, Some p3), c3)"
  shows "recv_loop rnd utf8 popcode buf c0 =
           (if utf8 (p1 @ p2 @ p3) then (Inr (Some (Text (p1 @ p2 @ p3))), c3)
            else (Inl UnicodeError, c3)) \<and>
         recv rnd utf8 c0 =
           (if utf8 (p1 @ p2 @ p3) then (Inr (Some (Text (p1 @ p2 @ p3))), c3)
            else (Inl UnicodeError, c3))"
proof -
  let ?R = "if utf8 (p1 @ p2 @ p3) then (Inr (Some (Text (p1 @ p2 @ p3))), c3)
            else (Inl UnicodeError, c3)"
  have o1: "is_open c1" using read_frame_open [OF f1] op by simp
  have o2: "is_open c2" using read_frame_open [OF f2] o1 by simp
  have "recv_loop rnd utf8 (Some OP_TEXT) (p1 @ p2) c2 = ?R"
    by (subst recv_loop.simps) (use o2 f3 in simp)
  then have "recv_loop rnd utf8 (Some OP_TEXT) p1 c1 = ?R"
    by (subst recv_loop.simps) (use o1 f2 in simp)
  then have "recv_loop rnd utf8 pc b c0 = ?R" for pc b
    by (subst recv_loop.simps) (use op f1 in simp)
  then show ?thesis
    unfolding recv_def by simp
qed

theorem recv_fragments_witness:
  "recv (\<lambda>_. 0) (\<lambda>bs. 0xff \<notin> set bs)
     (WebsocketClient (peer_sent [0x01, 0x01, 0x61, 0x00, 0x01, 0x62, 0x80, 0x01, 0x63] 64) 0) =
     (Inr (Some (Text [0x61, 0x62, 0x63])), WebsocketClient (peer_sent [] 64) 0)"
proof -
  have o: "is_open (WebsocketClient (peer_sent [0x01, 0x01, 0x61, 0x00, 0x01, 0x62, 0x80, 0x01, 0x63] 64) 0)"
    by (simp add: fixture_defs)
  have f1: "read_frame (\<lambda>_. 0)
      (WebsocketClient (peer_sent [0x01, 0x01, 0x61, 0x00, 0x01, 0x62, 0x80, 0x01, 0x63] 64) 0) =
      (Inr (False, OP_TEXT, Some [0x61]), WebsocketClient (peer_sent [0x00, 0x01, 0x62, 0x80, 0x01, 0x63] 64) 0)"
    by (simp add: fixture_defs read_defs)
  have f2: "read_frame (\<lambda>_. 0) (WebsocketClient (peer_sent [0x00, 0x01, 0x62, 0x80, 0x01, 0x63] 64) 0) =
      (Inr (False, OP_CONT, Some [0x62]), WebsocketClient (peer_sent [0x80, 0x01, 0x63] 64) 0)"
    by (simp add: fixture_defs read_defs)
  have f3: "read_frame (\<lambda>_. 0) (WebsocketClient (peer_sent [0x80, 0x01, 0x63] 64) 0) =
      (Inr (True, OP_CONT, Some [0x63]), WebsocketClient (peer_sent [] 64) 0)"
    by (simp add: fixture_defs read_defs)
  from recv_fragments [OF o f1 f2 f3, where ?utf8.0 = "\<lambda>bs. 0xff \<notin> set bs"]
  show ?thesis by simp
qed

text \<open>
  Not every three payloads give a message. No UTF-8 text contains the byte \<open>ff\<close>; with a
  decoder that rejects it (and, here, nothing else), a TEXT frame carrying \<open>ff\<close> followed
  by CONTINUATION frames carrying \<open>b\<close> and \<open>c\<close> makes \<open>recv\<close> raise \<open>UnicodeError\<close>.
\<close>

theorem recv_fragments_undecodable_counterexample:
  "recv (\<lambda>_. 0) (\<lambda>bs. 0xff \<notin> set bs)
     (WebsocketClient (peer_sent [0x01, 0x01, 0xff, 0x00, 0x01, 0x62, 0x80, 0x01, 0x63] 64) 0) =
     (Inl UnicodeError, WebsocketClient (peer_sent [] 64) 0)"
  by (simp add: recv_def fixture_defs read_defs)

subsection \<open>A CLOSE frame from the peer\<close>

text \<open>
  C4, as the code has it: on an open session, whenever the receive loop decodes a CLOSE
  frame from the peer, whatever the frame's payload and wherever the loop stands (whatever
  \<open>popcode\<close> and \<open>buf\<close> earlier frames of the call have left), it writes one masked CLOSE
  frame whose payload is the close code 1000 (\<open>self.close()\<close> is called with its default
  code), marks the session closed, flushes, releases the stream and returns \<open>None\<close>; so
  does a \<open>recv\<close> call whose first frame is the CLOSE frame.
\<close>

theorem recv_close_echo:
  assumes op: "is_open c" and f: "read_frame rnd c = (Inr (fin, OP_CLOSE, Some d), c')"
  shows "recv_loop rnd utf8 popcode buf c =
    (Inr None,
     c'\<lparr>strm := (strm c')\<lparr>
           tx := tx (strm c') @ [0x88, 0x82] @ pack_be 4 (rnd (rcalls c') mod 2 ^ 32)
                 @ mask_data (pack_be 4 (rnd (rcalls c') mod 2 ^ 32)) (pack_be 2 1000),
           flushed := length (tx (strm c')) + 8,
           released := True\<rparr>,
         is_open := False, rcalls := Suc (rcalls c')\<rparr>) \<and>
   recv rnd utf8 c =
    (Inr None,
     c'\<lparr>strm := (strm c')\<lparr>
           tx := tx (strm c') @ [0x88, 0x82] @ pack_be 4 (rnd (rcalls c') mod 2 ^ 32)
                 @ mask_data (pack_be 4 (rnd (rcalls c') mod 2 ^ 32)) (pack_be 2 1000),
           flushed := length (tx (strm c')) + 8,
           released := True\<rparr>,
         is_open := False, rcalls := Suc (rcalls c')\<rparr>)"
proof -
  have o: "is_open c'" using read_frame_open [OF f] op by simp
  have "recv_loop rnd utf8 pc b c =
    (Inr None,
     c'\<lparr>strm := (strm c')\<lparr>
           tx := tx (strm c') @ [0x88, 0x82] @ pack_be 4 (rnd (rcalls c') mod 2 ^ 32)
                 @ mask_data (pack_be 4 (rnd (rcalls c') mod 2 ^ 32)) (pack_be 2 1000),
           flushed := length (tx (strm c')) + 8,
           released := True\<rparr>,
         is_open := False, rcalls := Suc (rcalls c')\<rparr>)" for pc b
    by (subst recv_loop.simps)
      (use op f o in \<open>simp add: close_def write_frame_eq frame_header_def wait_closed_def io_defs
         del: pack_be_numeral\<close>)
  then show ?thesis
    unfolding recv_def by simp
qed

theorem recv_close_echo_witness:
  "recv_loop (\<lambda>_. 0x01020304) (\<lambda>_. True) (Some OP_TEXT) [0x61]
      (WebsocketClient (peer_sent [0x88, 0x00] 64) 0) =
     (Inr None,
      \<lparr>strm = \<lparr>rx = [], tx = [0x88, 0x82, 1, 2, 3, 4, 0x02, 0xea], flushed = 8,
                released = True, mem = 64\<rparr>,
       is_open = False, rcalls = 1\<rparr>)"
proof -
  have o: "is_open (WebsocketClient (peer_sent [0x88, 0x00] 64) 0)"
    by (simp add: fixture_defs)
  have f: "read_frame (\<lambda>_. 0x01020304) (WebsocketClient (peer_sent [0x88, 0x00] 64) 0) =
      (Inr (True, OP_CLOSE, Some []), WebsocketClient (peer_sent [] 64) 0)"
    by (simp add: fixture_defs read_defs)
  from recv_close_echo [OF o f, where ?utf8.0 = "\<lambda>_. True" and popcode = "Some OP_TEXT"
      and buf = "[0x61]"]
  show ?thesis
    by (simp add: fixture_defs mask_data_def)
qed

text \<open>
  The peer's close code is not echoed: a CLOSE frame carrying code 1001 (bytes \<open>03 e9\<close>)
  is answered, with the mask key 0, by a CLOSE frame carrying 1000 (bytes \<open>03 e8\<close>).
\<close>

theorem recv_close_code_counterexample:
  "recv (\<lambda>_. 0) (\<lambda>_. True) (WebsocketClient (peer_sent [0x88, 0x02, 0x03, 0xe9] 64) 0) =
     (Inr None,
      \<lparr>strm = \<lparr>rx = [], tx = [0x88, 0x82, 0, 0, 0, 0, 0x03, 0xe8], flushed = 8,
                released = True, mem = 64\<rparr>,
       is_open = False, rcalls = 1\<rparr>) \<and>
   unpack_be [0x03, 0xe9] = 1001 \<and> unpack_be [0x03, 0xe8] = 1000"
  unfolding recv_def
  by (subst recv_loop.simps)
    (simp add: fixture_defs read_defs close_def write_frame_eq wait_closed_def)

subsection \<open>Closing twice\<close>

text \<open>
  C7: for every session, \<open>close\<close> followed by a second \<open>close\<close> (with any code and reason)
  gives the result and the state of the first \<open>close\<close> alone; \<open>open\<close> is false afterwards; an
  open session has had exactly one CLOSE frame appended to its stream and a session that
  was closed already none; and \<open>close\<close> on a session that is not open changes nothing. The
  payload of the CLOSE frame, code and reason, has to be shorter than \<open>2^64\<close> bytes, as it
  always is on a real machine.
\<close>

theorem close_idempotent:
  assumes "length reason + 2 < 2 ^ 64"
  shows "then_do (close rnd code reason) (\<lambda>_. close rnd code' reason') c = close rnd code reason c \<and>
    fst (close rnd code reason c) = Inr () \<and>
    \<not> is_open (snd (close rnd code reason c)) \<and>
    tx (strm (snd (close rnd code reason c))) =
      tx (strm c) @
      (if is_open c then
         frame_header OP_CLOSE (length reason + 2) @ pack_be 4 (rnd (rcalls c) mod 2 ^ 32)
         @ mask_data (pack_be 4 (rnd (rcalls c) mod 2 ^ 32)) (pack_be 2 code @ reason)
       else []) \<and>
    (is_open c \<or> close rnd code reason c = (Inr (), c))"
  using assms
  by (simp add: close_def then_do_def write_frame_eq add.commute del: pack_be_numeral)

theorem close_idempotent_witness:
  "then_do (close (\<lambda>_. 0) 1000 []) (\<lambda>_. close (\<lambda>_. 0) 1001 [0x21])
      (WebsocketClient (peer_sent [] 64) 0) =
     (Inr (), \<lparr>strm = \<lparr>rx = [], tx = [0x88, 0x82, 0, 0, 0, 0, 0x03, 0xe8], flushed = 0,
                released = False, mem = 64\<rparr>, is_open = False, rcalls = 1\<rparr>)"
proof -
  have c: "close (\<lambda>_. 0) 1000 [] (WebsocketClient (peer_sent [] 64) 0) =
     (Inr (), \<lparr>strm = \<lparr>rx = [], tx = [0x88, 0x82, 0, 0, 0, 0, 0x03, 0xe8], flushed = 0,
                released = False, mem = 64\<rparr>, is_open = False, rcalls = 1\<rparr>)"
    by (simp add: fixture_defs close_def write_frame_eq then_do_def mask_data_def)
  from close_idempotent [of "[]" "\<lambda>_. 0" 1000 1001 "[0x21]" "WebsocketClient (peer_sent [] 64) 0"]
  show ?thesis by (simp add: c)
qed

subsection \<open>The contract of \<open>send\<close>\<close>

text \<open>
  C8: \<open>send\<close> on a closed session returns at once, whatever the payload: nothing is written
  and the session is unchanged. On an open session a \<open>str\<close> goes out as one masked TEXT
  frame and a \<open>bytes\<close> object as one masked BINARY frame, followed by a flush (a payload
  of \<open>2^64\<close> bytes or more raises \<open>ValueError\<close> and writes nothing), and a payload of any
  other type raises \<open>TypeError\<close> and writes nothing.
\<close>

theorem send_contract:
  "send rnd buf c =
    (if \<not> is_open c then (Inr (), c)
     else case buf of
       Str b \<Rightarrow>
         if length b < 2 ^ 64 then
           (Inr (), c\<lparr>strm := (strm c)\<lparr>
              tx := tx (strm c) @ frame_header OP_TEXT (length b)
                    @ pack_be 4 (rnd (rcalls c) mod 2 ^ 32)
                    @ mask_data (pack_be 4 (rnd (rcalls c) mod 2 ^ 32)) b,
              flushed := length (tx (strm c)) + length (frame_header OP_TEXT (length b)) + 4 + length b\<rparr>,
              rcalls := Suc (rcalls c)\<rparr>)
         else (Inl (ValueError NoArg), c)
     | Bytes b \<Rightarrow>
         if length b < 2 ^ 64 then
           (Inr (), c\<lparr>strm := (strm c)\<lparr>
              tx := tx (strm c) @ frame_header OP_BYTES (length b)
                    @ pack_be 4 (rnd (rcalls c) mod 2 ^ 32)
                    @ mask_data (pack_be 4 (rnd (rcalls c) mod 2 ^ 32)) b,
              flushed := length (tx (strm c)) + length (frame_header OP_BYTES (length b)) + 4 + length b\<rparr>,
              rcalls := Suc (rcalls c)\<rparr>)
         else (Inl (ValueError NoArg), c)
     | Other \<Rightarrow> (Inl TypeError, c))"
  by (cases buf)
    (simp_all add: send_def then_do_def write_frame_eq write_frame_big on_stream_def s_drain_def
      del: pack_be_numeral)

subsection \<open>A PING between two fragments\<close>

text \<open>
  C3 at a concrete input. The peer sends a TEXT frame with \<open>fin\<close> clear carrying \<open>a\<close>, a PING
  carrying \<open>p\<close>, and a CONTINUATION frame with \<open>fin\<close> set carrying \<open>b\<close>, then the stream ends.
  \<open>recv\<close> answers the PING with a PONG carrying \<open>p\<close> and flushes, but the PING, as every frame
  that is not a CONTINUATION, has reset \<open>buf\<close> and set \<open>popcode\<close> to its own opcode: the
  CONTINUATION frame is then taken for a PING, answered with a second PONG carrying \<open>b\<close>,
  and no message is returned (\<open>None\<close> at the end of the stream). Without the PING the same
  two fragments give the TEXT message \<open>ab\<close>.
\<close>

theorem recv_ping_between_fragments:
  "recv (\<lambda>_. 0) (\<lambda>_. True)
      (WebsocketClient (peer_sent [0x01, 0x01, 0x61, 0x89, 0x01, 0x70, 0x80, 0x01, 0x62] 64) 0) =
     (Inr None,
      \<lparr>strm = \<lparr>rx = [], tx = [0x8a, 0x81, 0, 0, 0, 0, 0x70, 0x8a, 0x81, 0, 0, 0, 0, 0x62],
                flushed = 14, released = False, mem = 64\<rparr>,
       is_open = False, rcalls = 2\<rparr>) \<and>
   recv (\<lambda>_. 0) (\<lambda>_. True)
      (WebsocketClient (peer_sent [0x01, 0x01, 0x61, 0x80, 0x01, 0x62] 64) 0) =
     (Inr (Some (Text [0x61, 0x62])), WebsocketClient (peer_sent [] 64) 0)"
  by (simp add: recv_def fixture_defs read_defs write_frame_eq frame_header_def)

subsection \<open>A frame too big to allocate\<close>

text \<open>
  C6: the session is open and the stream holds a whole frame header, that is the two
  header bytes \<open>b1\<close> and \<open>b2\<close>, the extended length \<open>ext\<close> (2 bytes when the length field is
  126, 8 when it is 127, none otherwise) and the mask key \<open>mkey\<close> (4 bytes when the mask bit
  is set), and the length it declares is more than a read can allocate. Then the receive
  loop, wherever it stands (whatever \<open>popcode\<close> and \<open>buf\<close> earlier frames of the call have
  left), writes one masked CLOSE frame carrying the close code 1009, flushes, marks the
  session closed, releases the stream and returns \<open>None\<close>: no exception and no data. So
  does a \<open>recv\<close> call whose first frame is the oversized one.
\<close>

lemma read_frame_too_big:
  assumes op: "is_open c" and mem8: "8 \<le> mem (strm c)"
    and rx: "rx (strm c) = b1 # b2 # ext @ mkey @ rest"
    and ext: "length ext = (if unat b2 AND 0x7f = 126 then 2 else if unat b2 AND 0x7f = 127 then 8 else 0)"
    and mkey: "length mkey = (if unat b2 AND 0x80 \<noteq> 0 then 4 else 0)"
    and big: "mem (strm c) <
       (if unat b2 AND 0x7f = 126 \<or> unat b2 AND 0x7f = 127 then unpack_be ext else unat b2 AND 0x7f)"
  shows "read_frame rnd c =
    (Inr (True, OP_CLOSE, None),
     c\<lparr>strm := (strm c)\<lparr>rx := rest,
           tx := tx (strm c) @ [0x88, 0x82] @ pack_be 4 (rnd (rcalls c) mod 2 ^ 32)
                 @ mask_data (pack_be 4 (rnd (rcalls c) mod 2 ^ 32)) (pack_be 2 1009),
           flushed := length (tx (strm c)) + 8\<rparr>,
         is_open := False, rcalls := Suc (rcalls c)\<rparr>)"
  using assms
  by (auto simp: read_frame_def io_defs Let_def close_def write_frame_eq frame_header_def
      simp del: pack_be_numeral split: if_splits)

theorem recv_too_big:
  assumes op: "is_open c" and mem8: "8 \<le> mem (strm c)"
    and rx: "rx (strm c) = b1 # b2 # ext @ mkey @ rest"
    and ext: "length ext = (if unat b2 AND 0x7f = 126 then 2 else if unat b2 AND 0x7f = 127 then 8 else 0)"
    and mkey: "length mkey = (if unat b2 AND 0x80 \<noteq> 0 then 4 else 0)"
    and big: "mem (strm c) <
       (if unat b2 AND 0x7f = 126 \<or> unat b2 AND 0x7f = 127 then unpack_be ext else unat b2 AND 0x7f)"
  shows "recv_loop rnd utf8 popcode buf c =
    (Inr None,
     c\<lparr>strm := (strm c)\<lparr>rx := rest,
           tx := tx (strm c) @ [0x88, 0x82] @ pack_be 4 (rnd (rcalls c) mod 2 ^ 32)
                 @ mask_data (pack_be 4 (rnd (rcalls c) mod 2 ^ 32)) (pack_be 2 1009),
           flushed := length (tx (strm c)) + 8,
           released := True\<rparr>,
         is_open := False, rcalls := Suc (rcalls c)\<rparr>) \<and>
   recv rnd utf8 c =
    (Inr None,
     c\<lparr>strm := (strm c)\<lparr>rx := rest,
           tx := tx (strm c) @ [0x88, 0x82] @ pack_be 4 (rnd (rcalls c) mod 2 ^ 32)
                 @ mask_data (pack_be 4 (rnd (rcalls c) mod 2 ^ 32)) (pack_be 2 1009),
           flushed := length (tx (strm c)) + 8,
           released := True\<rparr>,
         is_open := False, rcalls := Suc (rcalls c)\<rparr>)"
proof -
  have "recv_loop rnd utf8 pc b c =
    (Inr None,
     c\<lparr>strm := (strm c)\<lparr>rx := rest,
           tx := tx (strm c) @ [0x88, 0x82] @ pack_be 4 (rnd (rcalls c) mod 2 ^ 32)
                 @ mask_data (pack_be 4 (rnd (rcalls c) mod 2 ^ 32)) (pack_be 2 1009),
           flushed := length (tx (strm c)) + 8,
           released := True\<rparr>,
         is_open := False, rcalls := Suc (rcalls c)\<rparr>)" for pc b
    by (subst recv_loop.simps)
      (simp add: op read_frame_too_big [OF assms] close_def wait_closed_def io_defs
        del: pack_be_numeral)
  then show ?thesis
    unfolding recv_def by simp
qed

theorem recv_too_big_witness:
  "recv_loop (\<lambda>_. 0) (\<lambda>_. True) (Some OP_TEXT) [0x61]
      (WebsocketClient (peer_sent [0x82, 0x7e, 0x01, 0x00, 0x41, 0x42] 100) 0) =
     (Inr None,
      \<lparr>strm = \<lparr>rx = [0x41, 0x42], tx = [0x88, 0x82, 0, 0, 0, 0, 0x03, 0xf1], flushed = 8,
                released = True, mem = 100\<rparr>,
       is_open = False, rcalls = 1\<rparr>)"
  using recv_too_big [where c = "WebsocketClient (peer_sent [0x82, 0x7e, 0x01, 0x00, 0x41, 0x42] 100) 0"
      and ?b1.0 = "0x82" and ?b2.0 = "0x7e" and ext = "[0x01, 0x00]" and mkey = "[]"
      and rest = "[0x41, 0x42]" and rnd = "\<lambda>_. 0" and ?utf8.0 = "\<lambda>_. True"
      and popcode = "Some OP_TEXT" and buf = "[0x61]"]
  by (simp add: fixture_defs unpack_be_def mask_data_def)

subsection \<open>Rejection of the handshake\<close>

text \<open>The writes, the flush and the read of the handshake never raise.\<close>

lemma then_do_send_header:
  "then_do (send_header l) f s = f () (s\<lparr>tx := tx s @ l @ [13, 10]\<rparr>)"
  by (simp add: then_do_def send_header_def s_write_def)

lemma then_do_token:
  "then_do (case token of None \<Rightarrow> ret () | Some t \<Rightarrow> if t \<noteq> [] then send_header (h t) else ret ()) f s =
     f () (s\<lparr>tx := tx s @ (case token of None \<Rightarrow> []
                              | Some t \<Rightarrow> if t \<noteq> [] then h t @ [13, 10] else [])\<rparr>)"
  by (simp add: then_do_def send_header_def s_write_def ret_def split: option.splits)

lemma then_do_ret:
  "then_do (ret v) f s = f v s"
  by (simp add: then_do_def ret_def)

lemma then_do_drain:
  "then_do s_drain f s = f () (s\<lparr>flushed := length (tx s)\<rparr>)"
  by (simp add: then_do_def s_drain_def)

lemma then_do_readline:
  "then_do s_readline f s =
     f (takeWhile (\<lambda>b. b \<noteq> 10) (rx s) @ take 1 (dropWhile (\<lambda>b. b \<noteq> 10) (rx s)))
       (s\<lparr>rx := drop 1 (dropWhile (\<lambda>b. b \<noteq> 10) (rx s))\<rparr>)"
  by (simp add: then_do_def s_readline_def Let_def)

lemmas handshake_defs =
  then_do_send_header then_do_token then_do_ret then_do_drain then_do_readline

text \<open>
  C5, as the code has it: the url matches with protocol \<open>ws\<close> or \<open>wss\<close>, the connection opens
  as the stream \<open>s0\<close>, and the first line of the response, less its last two bytes, does not
  start with \<open>HTTP/1.1 101 \<close>. Then \<open>connect\<close> raises \<open>Exception('Invalid protocol header')\<close>
  and so returns no session; and it leaves the stream as released or not as it was when
  opened: \<open>connect\<close> closes nothing on this path, nor on any other.
\<close>

theorem connect_rejects:
  assumes m: "re_match url = Some (protocol, host, port_group, path)"
    and p: "protocol = ''ws'' \<or> protocol = ''wss''"
    and oc: "open_connection host (case port_group of
                 None \<Rightarrow> if protocol = ''ws'' then 80 else 443 | Some p \<Rightarrow> py_int p) = Inr s0"
    and rl: "s_readline s0 = (Inr line, s1)"
    and bad: "\<not> startswith (take (length line - 2) line) (ascii ''HTTP/1.1 101 '')"
  shows "fst (connect re_match open_connection b2a_base64 rnd url token) =
           Inl (Exception (MsgArg ''Invalid protocol header'')) \<and>
         map_option released (snd (connect re_match open_connection b2a_base64 rnd url token)) =
           Some (released s0)"
proof -
  from p have p': "protocol \<in> set [''ws'', ''wss'']" by auto
  from rl have l: "takeWhile (\<lambda>b. b \<noteq> 10) (rx s0) @ take 1 (dropWhile (\<lambda>b. b \<noteq> 10) (rx s0)) = line"
    by (simp add: s_readline_def Let_def)
  have bad': "\<not> startswith
      (take (length (takeWhile (\<lambda>b. b \<noteq> 10) (rx s0) @ take 1 (dropWhile (\<lambda>b. b \<noteq> 10) (rx s0))) - 2)
         (takeWhile (\<lambda>b. b \<noteq> 10) (rx s0) @ take 1 (dropWhile (\<lambda>b. b \<noteq> 10) (rx s0))))
      (ascii ''HTTP/1.1 101 '')"
    unfolding l by (rule bad)
  show ?thesis
    unfolding connect_def m option.case prod.case Let_def oc sum.case
    using p' bad'
    by (simp add: handshake_defs raise_def)
qed

theorem connect_rejects_witness:
  "fst (connect (\<lambda>_. Some (''wss'', ''h'', Some ''8443'', Some ''/x''))
      (\<lambda>_ _. Inr (peer_sent (ascii ''HTTP/1.1 500 Oops'' @ [13, 10]) 64))
      (\<lambda>_. [0x41, 0x3d, 10]) (\<lambda>_. 0) ''wss://h:8443/x'' (Some ''t'')) =
     Inl (Exception (MsgArg ''Invalid protocol header''))"
proof -
  have rl: "s_readline (peer_sent (ascii ''HTTP/1.1 500 Oops'' @ [13, 10]) 64) =
      (Inr (ascii ''HTTP/1.1 500 Oops'' @ [13, 10]), peer_sent [] 64)"
    by (simp add: s_readline_def peer_sent_def ascii_def Let_def)
  have bad: "\<not> startswith (take (length (ascii ''HTTP/1.1 500 Oops'' @ [13, 10]) - 2)
        (ascii ''HTTP/1.1 500 Oops'' @ [13, 10])) (ascii ''HTTP/1.1 101 '')"
    by (simp add: startswith_def ascii_def)
  from connect_rejects [where re_match = "\<lambda>_. Some (''wss'', ''h'', Some ''8443'', Some ''/x'')"
      and url = "''wss://h:8443/x''" and protocol = "''wss''" and host = "''h''"
      and port_group = "Some ''8443''" and path = "Some ''/x''"
      and open_connection = "\<lambda>_ _. Inr (peer_sent (ascii ''HTTP/1.1 500 Oops'' @ [13, 10]) 64)"
      and ?s0.0 = "peer_sent (ascii ''HTTP/1.1 500 Oops'' @ [13, 10]) 64", OF _ _ _ rl bad]
  show ?thesis by simp
qed

text \<open>
  The connection is not released: on a fresh connection (not released) on which the peer
  answers \<open>HTTP/1.1 404 Not Found\<close>, \<open>connect\<close> raises the exception and the stream it opened
  is still not released.
\<close>

theorem connect_404_counterexample:
  "fst (connect (\<lambda>_. Some (''ws'', ''h'', None, None))
      (\<lambda>_ _. Inr (peer_sent (ascii ''HTTP/1.1 404 Not Found'' @ [13, 10, 13, 10]) 64))
      (\<lambda>_. [0x41, 0x3d, 10]) (\<lambda>_. 0) ''ws://h'' None) =
     Inl (Exception (MsgArg ''Invalid protocol header'')) \<and>
   map_option released (snd (connect (\<lambda>_. Some (''ws'', ''h'', None, None))
      (\<lambda>_ _. Inr (peer_sent (ascii ''HTTP/1.1 404 Not Found'' @ [13, 10, 13, 10]) 64))
      (\<lambda>_. [0x41, 0x3d, 10]) (\<lambda>_. 0) ''ws://h'' None)) = Some False"
  by (simp add: connect_def Let_def handshake_defs raise_def peer_sent_def startswith_def ascii_def)

end
